theory Spec2Isabelle
  imports Main "HOL-Library.Char_ord" "HOL-Library.List_Lexorder" "HOL-Library.Product_Lexorder"
begin

section \<open>JavaScript values and strings\<close>

text \<open>
  The dashboard logic of \<^verbatim>\<open>js/download.js\<close> is embedded as pure functions on an
  explicit program state. Values that flow between SQL.js and the JavaScript code are
  \<^verbatim>\<open>undefined\<close>, \<^verbatim>\<open>null\<close>, numbers and strings. Numbers are integers here (row
  counts, years, district numbers); strings are lists of bytes, and the case conversions
  act on the ASCII letters only.
\<close>

datatype jsval = JUndefined | JNull | JNum int | JStr string

text \<open>Truthiness, as tested by \<^verbatim>\<open>if (x)\<close>, \<^verbatim>\<open>!x\<close> and \<^verbatim>\<open>a || b\<close>.\<close>

fun truthy :: "jsval \<Rightarrow> bool" where
  "truthy JUndefined = False"
| "truthy JNull = False"
| "truthy (JNum n) = (n \<noteq> 0)"
| "truthy (JStr s) = (s \<noteq> [])"

definition jsOr :: "jsval \<Rightarrow> jsval \<Rightarrow> jsval" where
  "jsOr a b = (if truthy a then a else b)"

definition digitChar :: "nat \<Rightarrow> char" where
  "digitChar d = char_of (48 + d)"

fun showNat :: "nat \<Rightarrow> string" where
  "showNat n = (if n < 10 then [digitChar n] else showNat (n div 10) @ [digitChar (n mod 10)])"

declare showNat.simps [simp del]

definition showInt :: "int \<Rightarrow> string" where
  "showInt i = (if i < 0 then CHR ''-'' # showNat (nat (- i)) else showNat (nat i))"

text \<open>\<^verbatim>\<open>String(v)\<close>, the conversion a template literal applies to \<^verbatim>\<open>${v}\<close>.\<close>

fun jsString :: "jsval \<Rightarrow> string" where
  "jsString JUndefined = ''undefined''"
| "jsString JNull = ''null''"
| "jsString (JNum n) = showInt n"
| "jsString (JStr s) = s"

text \<open>\<^verbatim>\<open>v.toString()\<close>: a method call, which throws a TypeError on \<^verbatim>\<open>null\<close> and
  \<^verbatim>\<open>undefined\<close> (the value \<open>None\<close>).\<close>

fun toString :: "jsval \<Rightarrow> string option" where
  "toString JUndefined = None"
| "toString JNull = None"
| "toString v = Some (jsString v)"

text \<open>\<^verbatim>\<open>s.padStart(2, '0')\<close>.\<close>

definition padStart2 :: "string \<Rightarrow> string" where
  "padStart2 s = replicate (2 - length s) (CHR ''0'') @ s"







text \<open>
  \<^verbatim>\<open>parseInt(v)\<close>: the argument is converted to a string, leading white space is
  skipped, then an optional sign, an optional \<^verbatim>\<open>0x\<close> prefix and the longest run of
  digits of the radix are read. \<open>None\<close> is \<^verbatim>\<open>NaN\<close>.
\<close>

definition isDigit :: "char \<Rightarrow> bool" where
  "isDigit c = (let n = (of_char c :: nat) in 48 \<le> n \<and> n \<le> 57)"

definition isSpace :: "char \<Rightarrow> bool" where
  "isSpace c = (let n = (of_char c :: nat) in n = 32 \<or> (9 \<le> n \<and> n \<le> 13))"

definition digitValue :: "char \<Rightarrow> nat" where
  "digitValue c = (let n = (of_char c :: nat) in
     if 48 \<le> n \<and> n \<le> 57 then n - 48
     else if 97 \<le> n \<and> n \<le> 122 then n - 87
     else if 65 \<le> n \<and> n \<le> 90 then n - 55
     else 36)"

definition readDigits :: "nat \<Rightarrow> string \<Rightarrow> int option" where
  "readDigits radix s =
     (let ds = takeWhile (\<lambda>c. digitValue c < radix) s in
      if ds = [] then None
      else Some (int (foldl (\<lambda>acc c. acc * radix + digitValue c) 0 ds)))"

definition readUnsigned :: "string \<Rightarrow> int option" where
  "readUnsigned s =
     (case s of
        c # d # rest \<Rightarrow>
          if c = CHR ''0'' \<and> (d = CHR ''x'' \<or> d = CHR ''X'') then readDigits 16 rest
          else readDigits 10 s
      | _ \<Rightarrow> readDigits 10 s)"

definition parseInt :: "jsval \<Rightarrow> int option" where
  "parseInt v =
     (case dropWhile isSpace (jsString v) of
        [] \<Rightarrow> None
      | c # rest \<Rightarrow>
          if c = CHR ''-'' then map_option uminus (readUnsigned rest)
          else if c = CHR ''+'' then readUnsigned rest
          else readUnsigned (c # rest))"

text \<open>The first match of \<^verbatim>\<open>/(\d+)/\<close>: the leftmost, longest run of decimal digits.\<close>

definition matchDigits :: "string \<Rightarrow> string option" where
  "matchDigits s =
     (let t = dropWhile (\<lambda>c. \<not> isDigit c) s in
      if t = [] then None else Some (takeWhile isDigit t))"

text \<open>
  A row object, as \<^verbatim>\<open>stmt.getAsObject()\<close> returns it: column names with their values.
  Reading a property that the object lacks gives \<^verbatim>\<open>undefined\<close>.
\<close>

type_synonym row = "(string \<times> jsval) list"

definition getProp :: "row \<Rightarrow> string \<Rightarrow> jsval" where
  "getProp r k = (case map_of r k of None \<Rightarrow> JUndefined | Some v \<Rightarrow> v)"

text \<open>
  A chain \<^verbatim>\<open>row.a || row.b || row.c\<close> over the properties named in \<open>ks\<close>: the first
  truthy operand, else the last operand.
\<close>

fun probe :: "row \<Rightarrow> string list \<Rightarrow> jsval" where
  "probe r [] = JUndefined"
| "probe r [k] = getProp r k"
| "probe r (k # ks) = jsOr (getProp r k) (probe r ks)"

text \<open>
  \<^verbatim>\<open>obj[key] = value\<close> on a plain object used as a dictionary: the value of an
  existing key is replaced, a new key is added.
\<close>

fun assign :: "string \<Rightarrow> jsval \<Rightarrow> row \<Rightarrow> row" where
  "assign k v [] = [(k, v)]"
| "assign k v ((k', v') # al) = (if k = k' then (k, v) # al else (k', v') # assign k v al)"

section \<open>The dataset store\<close>

text \<open>
  The SQLite snapshot is read through SQL.js. A table or view is the list of its rows in
  scan order, or \<open>None\<close> when it is absent, in which case preparing a statement on it
  throws. The definitions of the views are part of the snapshot file, so their rows are
  taken as they are. SQL values are NULL (\<open>JNull\<close>), integers and text; columns carry no
  type affinity, so values are compared by storage class: NULL equals nothing, an integer
  never equals a text, and every text is greater than every integer.
\<close>

record db =
  Basic_Project_Info :: "row list option"
  crosswalk :: "row list option"
  ProjectsAwarded :: "row list option"
  ProjectsAwarded_ByDistrict :: "row list option"
  ProjectsAwarded_ByCounty :: "row list option"
  ProjectCount_Year :: "row list option"
  ProjectYears_ByDistrict :: "row list option"
  ProjectYears_ByCounty :: "row list option"

text \<open>The value of a column in a row of a table; a missing value is NULL.\<close>

definition column :: "row \<Rightarrow> string \<Rightarrow> jsval" where
  "column r c = (case map_of r c of Some (JNum n) \<Rightarrow> JNum n | Some (JStr t) \<Rightarrow> JStr t | _ \<Rightarrow> JNull)"

text \<open>\<^verbatim>\<open>a = b\<close> in a WHERE or ON clause (true, as opposed to false or NULL).\<close>

fun sqlEq :: "jsval \<Rightarrow> jsval \<Rightarrow> bool" where
  "sqlEq (JNum m) (JNum n) = (m = n)"
| "sqlEq (JStr t) (JStr u) = (t = u)"
| "sqlEq a b = False"

text \<open>\<^verbatim>\<open>v >= 2024\<close>.\<close>

fun sqlGe2024 :: "jsval \<Rightarrow> bool" where
  "sqlGe2024 (JNum n) = (2024 \<le> n)"
| "sqlGe2024 (JStr t) = True"
| "sqlGe2024 v = False"

text \<open>The sort order of ORDER BY and of the groups of GROUP BY: NULL, integers, text.\<close>

fun sqlKey :: "jsval \<Rightarrow> nat \<times> int \<times> string" where
  "sqlKey (JNum n) = (1, n, [])"
| "sqlKey (JStr t) = (2, 0, t)"
| "sqlKey v = (0, 0, [])"

definition orderBy :: "string \<Rightarrow> row list \<Rightarrow> row list" where
  "orderBy c rs = sort_key (\<lambda>r. sqlKey (column r c)) rs"

text \<open>\<^verbatim>\<open>SELECT v, COUNT(*) ... GROUP BY v ORDER BY v\<close> over a list of values.\<close>

definition groupCount :: "jsval list \<Rightarrow> (jsval \<times> int) list" where
  "groupCount vs = map (\<lambda>v. (v, int (length (filter (\<lambda>w. w = v) vs)))) (sort_key sqlKey (remdups vs))"

text \<open>
  \<^verbatim>\<open>FROM Basic_Project_Info b LEFT JOIN crosswalk c ON b.TYPE_WORK = c.raw_project_type
  WHERE c.dropdown_category = ?\<close>: the pairs of a project row and a crosswalk row that
  pass the filter. A project row without a crosswalk entry is joined to NULLs and fails
  the WHERE clause.
\<close>

definition joinCrosswalk :: "row list \<Rightarrow> row list \<Rightarrow> jsval \<Rightarrow> (row \<times> row) list" where
  "joinCrosswalk base cw projectType =
     concat (map (\<lambda>b. map (\<lambda>c. (b, c))
       (filter (\<lambda>c. sqlEq (column b ''TYPE_WORK'') (column c ''raw_project_type'')
                     \<and> sqlEq (column c ''dropdown_category'') projectType) cw)) base)"

text \<open>
  \<^verbatim>\<open>COUNT(CASE WHEN AWARDED IS NOT NULL AND AWARDED != '' THEN 1 END)\<close> counts the rows
  on which this holds; \<^verbatim>\<open>COUNT(CASE WHEN AWARDED IS NULL OR AWARDED = '' THEN 1 END)\<close>
  counts the others.
\<close>

fun awardedSet :: "jsval \<Rightarrow> bool" where
  "awardedSet (JNum n) = True"
| "awardedSet (JStr t) = (t \<noteq> [])"
| "awardedSet v = False"

fun awardedUnset :: "jsval \<Rightarrow> bool" where
  "awardedUnset (JNum n) = False"
| "awardedUnset (JStr t) = (t = [])"
| "awardedUnset v = True"

section \<open>Program state\<close>

text \<open>
  The global variables of the script that the filter and query functions read and write,
  and the two title elements of the page. The pie chart always shows \<open>projectCounts\<close>;
  the bar chart is given by its labels and values, \<open>None\<close> when no chart is drawn; the
  Tabulator table by its column fields and its rows. A feature group stands for the
  Leaflet layer built from the features with these indices; the map itself, the DOM
  elements of the controls and the record counter are outside the state.
\<close>

record counts =
  awarded :: jsval
  current :: jsval

record tabulator =
  columns :: "string list"
  tableData :: "row list"

type_synonym featureGroup = "nat list"

record state =
  currentDistrictFilter :: jsval
  currentCountyFilter :: jsval
  currentProjectTypeFilter :: jsval
  projectCounts :: counts
  projectYearsChart :: "(string list \<times> jsval list) option"
  highwayProjectsTable :: "tabulator option"
  database :: "db option"
  projectsPanelTitle :: string
  tableDataTitle :: string
  districtLayers :: "(string \<times> featureGroup) list"
  countyLayers :: "(string \<times> featureGroup) list"

section \<open>Charts and table\<close>

text \<open>
  \<open>createProjectYearsChart\<close> destroys the chart and draws a new one from the object
  \<open>yearData\<close>, with the keys sorted as strings; with no keys it draws nothing. The
  canvas element is taken to exist.
\<close>

definition yearsChart :: "row \<Rightarrow> (string list \<times> jsval list) option" where
  "yearsChart yearData =
     (let years = sort (map fst yearData);
          cnts = map (\<lambda>year. getProp yearData year) years
      in if years = [] then None else Some (years, cnts))"

definition createProjectYearsChart :: "row \<Rightarrow> state \<Rightarrow> state" where
  "createProjectYearsChart yearData s = s\<lparr>projectYearsChart := yearsChart yearData\<rparr>"

text \<open>
  The loop \<^verbatim>\<open>rows.forEach(row => { year = ...; count = ...;
  if (year && count !== undefined) yearData[year] = count })\<close>, with the property names
  probed for the year and for the count.
\<close>

definition addYear :: "string list \<Rightarrow> string list \<Rightarrow> row \<Rightarrow> row \<Rightarrow> row" where
  "addYear yearNames countNames yearData r =
     (let year = probe r yearNames; count = probe r countNames
      in if truthy year \<and> count \<noteq> JUndefined then assign (jsString year) count yearData
         else yearData)"

definition toYearData :: "string list \<Rightarrow> string list \<Rightarrow> row list \<Rightarrow> row" where
  "toYearData yearNames countNames rows = foldl (addYear yearNames countNames) [] rows"

text \<open>The rows \<^verbatim>\<open>{YEAR, record_count}\<close> of an aggregation by year.\<close>

definition yearRows :: "jsval list \<Rightarrow> row list" where
  "yearRows years = map (\<lambda>(y, n). [(''YEAR'', y), (''record_count'', JNum n)]) (groupCount years)"

definition initializeProjectsTable :: tabulator where
  "initializeProjectsTable = \<lparr>columns = [''loading''], tableData = []\<rparr>"

definition createTableColumns :: "row \<Rightarrow> string list" where
  "createTableColumns sampleRow = map fst sampleRow"

text \<open>
  The table update of the three filtered row loaders. When the table does not exist yet,
  the source creates it and runs the loader again from a timer; the second run finds the
  table and the same rows, which is the state computed here.
\<close>

definition setData :: "row list \<Rightarrow> tabulator \<Rightarrow> tabulator" where
  "setData rows t =
     (case rows of
        [] \<Rightarrow> t\<lparr>tableData := []\<rparr>
      | r # _ \<Rightarrow>
          (if columns t = [] \<or> hd (columns t) = ''loading''
           then t\<lparr>columns := createTableColumns r, tableData := rows\<rparr>
           else t\<lparr>tableData := rows\<rparr>))"

definition setFilteredData :: "row list \<Rightarrow> state \<Rightarrow> state" where
  "setFilteredData rows s =
     s\<lparr>highwayProjectsTable :=
         Some (setData rows (case highwayProjectsTable s of None \<Rightarrow> initializeProjectsTable | Some t \<Rightarrow> t))\<rparr>"

section \<open>Awarded and current counts\<close>

text \<open>
  Every loader has the same frame: it returns at once when no database is loaded, runs
  its queries inside \<^verbatim>\<open>try\<close>, and either assigns a result or leaves the state as it
  is. For each loader \<open>f\<close> the function \<open>f_query\<close> is the body of its \<^verbatim>\<open>try\<close> block
  (with the \<^verbatim>\<open>catch\<close> branch, where it runs a second query): the result that is
  assigned, and \<open>None\<close> when nothing is assigned.

  \<^verbatim>\<open>row.Awarded || row.awarded || 0\<close> and \<^verbatim>\<open>row.Current || row.current || 0\<close> are read
  from a row of one of the \<^verbatim>\<open>ProjectsAwarded\<close> views.
\<close>

definition countsOfRow :: "row \<Rightarrow> counts" where
  "countsOfRow r =
     \<lparr>awarded = jsOr (getProp r ''Awarded'') (jsOr (getProp r ''awarded'') (JNum 0)),
      current = jsOr (getProp r ''Current'') (jsOr (getProp r ''current'') (JNum 0))\<rparr>"

text \<open>
  \<open>loadProjectsAwardedData\<close>: the first row of the view \<^verbatim>\<open>ProjectsAwarded\<close>; when the
  view has no row the counts are left as they are. When the view is absent, every row of
  \<^verbatim>\<open>Basic_Project_Info\<close> is counted as current. An exception of the fallback is caught.
\<close>

definition loadProjectsAwardedData_query :: "db \<Rightarrow> counts option" where
  "loadProjectsAwardedData_query d =
     (case ProjectsAwarded d of
        Some [] \<Rightarrow> None
      | Some (r # _) \<Rightarrow> Some (countsOfRow r)
      | None \<Rightarrow>
          (case Basic_Project_Info d of
             None \<Rightarrow> None
           | Some base \<Rightarrow> Some \<lparr>awarded = JNum 0, current = JNum (int (length base))\<rparr>))"

definition loadProjectsAwardedData :: "state \<Rightarrow> state" where
  "loadProjectsAwardedData s =
     (case database s of
        None \<Rightarrow> s
      | Some d \<Rightarrow>
          (case loadProjectsAwardedData_query d of
             None \<Rightarrow> s
           | Some c \<Rightarrow> s\<lparr>projectCounts := c\<rparr>))"

text \<open>\<^verbatim>\<open>`District ${districtNumber.toString().padStart(2, '0')}`\<close>; \<open>None\<close> when
  \<^verbatim>\<open>toString\<close> throws.\<close>

definition formattedDistrict :: "jsval \<Rightarrow> jsval option" where
  "formattedDistrict districtNumber =
     map_option (\<lambda>t. JStr (''District '' @ padStart2 t)) (toString districtNumber)"

text \<open>
  \<open>loadFilteredProjectsAwardedData\<close> (by district): the first row of
  \<^verbatim>\<open>ProjectsAwarded_ByDistrict\<close> for the formatted district, zero counts when there is
  none. Any exception is caught and logged; there is no second query.
\<close>

definition loadFilteredProjectsAwardedData_query :: "jsval \<Rightarrow> db \<Rightarrow> counts option" where
  "loadFilteredProjectsAwardedData_query districtNumber d =
     (case formattedDistrict districtNumber of
        None \<Rightarrow> None
      | Some fd \<Rightarrow>
          (case ProjectsAwarded_ByDistrict d of
             None \<Rightarrow> None
           | Some view \<Rightarrow>
               (case filter (\<lambda>r. sqlEq (column r ''DISTRICT'') fd) view of
                  r # _ \<Rightarrow> Some (countsOfRow r)
                | [] \<Rightarrow> Some \<lparr>awarded = JNum 0, current = JNum 0\<rparr>)))"

definition loadFilteredProjectsAwardedData :: "jsval \<Rightarrow> state \<Rightarrow> state" where
  "loadFilteredProjectsAwardedData districtNumber s =
     (case database s of
        None \<Rightarrow> s
      | Some d \<Rightarrow>
          (case loadFilteredProjectsAwardedData_query districtNumber d of
             None \<Rightarrow> s
           | Some c \<Rightarrow> s\<lparr>projectCounts := c\<rparr>))"

text \<open>
  \<open>loadFilteredProjectsAwardedDataByCounty\<close>: as for the district, on the view
  \<^verbatim>\<open>ProjectsAwarded_ByCounty\<close>; when the view is absent, the rows of
  \<^verbatim>\<open>Basic_Project_Info\<close> of the county are counted by their \<^verbatim>\<open>AWARDED\<close> column, and
  the counts are read from the single row \<^verbatim>\<open>{Awarded, Current}\<close> of that aggregation.
\<close>

definition countyFallbackRow :: "jsval \<Rightarrow> row list \<Rightarrow> row" where
  "countyFallbackRow countyName base =
     (let matching = filter (\<lambda>r. sqlEq (column r ''COUNTY'') countyName) base
      in [(''Awarded'', JNum (int (length (filter (\<lambda>r. awardedSet (column r ''AWARDED'')) matching)))),
          (''Current'', JNum (int (length (filter (\<lambda>r. awardedUnset (column r ''AWARDED'')) matching))))])"

definition loadFilteredProjectsAwardedDataByCounty_query :: "jsval \<Rightarrow> db \<Rightarrow> counts option" where
  "loadFilteredProjectsAwardedDataByCounty_query countyName d =
     (case ProjectsAwarded_ByCounty d of
        Some view \<Rightarrow>
          (case filter (\<lambda>r. sqlEq (column r ''COUNTY'') countyName) view of
             r # _ \<Rightarrow> Some (countsOfRow r)
           | [] \<Rightarrow> Some \<lparr>awarded = JNum 0, current = JNum 0\<rparr>)
      | None \<Rightarrow>
          (case Basic_Project_Info d of
             None \<Rightarrow> None
           | Some base \<Rightarrow>
               (let r = countyFallbackRow countyName base
                in Some \<lparr>awarded = jsOr (getProp r ''Awarded'') (JNum 0),
                         current = jsOr (getProp r ''Current'') (JNum 0)\<rparr>)))"

definition loadFilteredProjectsAwardedDataByCounty :: "jsval \<Rightarrow> state \<Rightarrow> state" where
  "loadFilteredProjectsAwardedDataByCounty countyName s =
     (case database s of
        None \<Rightarrow> s
      | Some d \<Rightarrow>
          (case loadFilteredProjectsAwardedDataByCounty_query countyName d of
             None \<Rightarrow> s
           | Some c \<Rightarrow> s\<lparr>projectCounts := c\<rparr>))"

text \<open>
  The query of \<open>loadFilteredProjectsAwardedDataByProjectType\<close>:
  \<^verbatim>\<open>SELECT CASE WHEN c.dropdown_category = ? THEN 'Awarded' ELSE 'Current' END as status,
  COUNT(*) as count FROM ... WHERE c.dropdown_category = ? GROUP BY status\<close>, with the
  project type bound to both parameters. The loop over its rows starts from
  \<^verbatim>\<open>awardedCount = 0, currentCount = 0\<close>; \<^verbatim>\<open>updateProjectCounts\<close> then stores both.
\<close>

definition statusCounts :: "row list \<Rightarrow> row list \<Rightarrow> jsval \<Rightarrow> row list" where
  "statusCounts base cw projectType =
     map (\<lambda>(st, n). [(''status'', st), (''count'', JNum n)])
       (groupCount (map (\<lambda>(b, c). if sqlEq (column c ''dropdown_category'') projectType
                                   then JStr ''Awarded'' else JStr ''Current'')
                        (joinCrosswalk base cw projectType)))"

definition addStatus :: "counts \<Rightarrow> row \<Rightarrow> counts" where
  "addStatus acc r =
     (if getProp r ''status'' = JStr ''Awarded''
      then acc\<lparr>awarded := jsOr (getProp r ''count'') (JNum 0)\<rparr>
      else acc\<lparr>current := jsOr (getProp r ''count'') (JNum 0)\<rparr>)"

definition loadFilteredProjectsAwardedDataByProjectType_query :: "jsval \<Rightarrow> db \<Rightarrow> counts option" where
  "loadFilteredProjectsAwardedDataByProjectType_query projectType d =
     (case (Basic_Project_Info d, crosswalk d) of
        (Some base, Some cw) \<Rightarrow>
          Some (foldl addStatus \<lparr>awarded = JNum 0, current = JNum 0\<rparr> (statusCounts base cw projectType))
      | _ \<Rightarrow> None)"

definition updateProjectCounts_awarded :: "jsval \<Rightarrow> state \<Rightarrow> state" where
  "updateProjectCounts_awarded count s = s\<lparr>projectCounts := (projectCounts s)\<lparr>awarded := count\<rparr>\<rparr>"

definition updateProjectCounts_current :: "jsval \<Rightarrow> state \<Rightarrow> state" where
  "updateProjectCounts_current count s = s\<lparr>projectCounts := (projectCounts s)\<lparr>current := count\<rparr>\<rparr>"

definition loadFilteredProjectsAwardedDataByProjectType :: "jsval \<Rightarrow> state \<Rightarrow> state" where
  "loadFilteredProjectsAwardedDataByProjectType projectType s =
     (case database s of
        None \<Rightarrow> s
      | Some d \<Rightarrow>
          (case loadFilteredProjectsAwardedDataByProjectType_query projectType d of
             None \<Rightarrow> s
           | Some c \<Rightarrow> updateProjectCounts_current (current c) (updateProjectCounts_awarded (awarded c) s)))"

section \<open>Project counts by year\<close>

text \<open>
  \<open>loadProjectCountByYear\<close>: the view \<^verbatim>\<open>ProjectCount_Year\<close> ordered by \<^verbatim>\<open>YEAR\<close>; no
  chart is drawn when the view is empty or gives no usable year. When the view is absent,
  the rows of \<^verbatim>\<open>Basic_Project_Info\<close> with \<^verbatim>\<open>RSY_YEAR >= 2024\<close> are counted in
  JavaScript under \<^verbatim>\<open>parseInt(row.RSY_YEAR)\<close>. The result is the object \<open>yearData\<close>
  handed to \<open>createProjectYearsChart\<close>.
\<close>

definition countYear :: "row \<Rightarrow> row \<Rightarrow> row" where
  "countYear yearData r =
     (case parseInt (column r ''RSY_YEAR'') of
        None \<Rightarrow> yearData
      | Some rsyYear \<Rightarrow>
          (case jsOr (getProp yearData (showInt rsyYear)) (JNum 0) of
             JNum n \<Rightarrow> assign (showInt rsyYear) (JNum (n + 1)) yearData
           | _ \<Rightarrow> yearData))"

definition loadProjectCountByYear_query :: "db \<Rightarrow> row option" where
  "loadProjectCountByYear_query d =
     (case ProjectCount_Year d of
        Some view \<Rightarrow>
          (let rows = orderBy ''YEAR'' view;
               yearData = toYearData [''YEAR'', ''year''] [''record_count'', ''RECORD_COUNT'', ''count''] rows
           in if rows = [] then None
              else if yearData \<noteq> [] then Some yearData else None)
      | None \<Rightarrow>
          (case Basic_Project_Info d of
             None \<Rightarrow> None
           | Some base \<Rightarrow>
               (let yearData = foldl countYear [] (filter (\<lambda>r. sqlGe2024 (column r ''RSY_YEAR'')) base)
                in if yearData \<noteq> [] then Some yearData else None)))"

definition loadProjectCountByYear :: "state \<Rightarrow> state" where
  "loadProjectCountByYear s =
     (case database s of
        None \<Rightarrow> s
      | Some d \<Rightarrow>
          (case loadProjectCountByYear_query d of
             None \<Rightarrow> s
           | Some yearData \<Rightarrow> createProjectYearsChart yearData s))"

text \<open>
  \<open>loadFilteredProjectCountByYear\<close> (by district) and
  \<open>loadFilteredProjectCountByYearByCounty\<close>: the view for the filter kind, and when it is
  absent the aggregation \<^verbatim>\<open>SELECT RSY_YEAR as YEAR, COUNT(*) as record_count FROM
  Basic_Project_Info WHERE ... = ? AND RSY_YEAR >= 2024 GROUP BY RSY_YEAR ORDER BY
  RSY_YEAR\<close>. Both results go through the same conversion, and a chart is drawn, or
  cleared when no year is usable.
\<close>

definition fallbackYearRows :: "string \<Rightarrow> jsval \<Rightarrow> row list \<Rightarrow> row list" where
  "fallbackYearRows col v base =
     yearRows (map (\<lambda>r. column r ''RSY_YEAR'')
       (filter (\<lambda>r. sqlEq (column r col) v \<and> sqlGe2024 (column r ''RSY_YEAR'')) base))"

definition districtYearData :: "row list \<Rightarrow> row" where
  "districtYearData rows =
     toYearData [''RSY_YEAR'', ''YEAR'', ''year'']
       [''total_projects'', ''record_count'', ''RECORD_COUNT'', ''count'', ''Count''] rows"

definition countyYearData :: "row list \<Rightarrow> row" where
  "countyYearData rows =
     toYearData [''RSY_YEAR'', ''YEAR'', ''year'']
       [''total_projects'', ''record_count'', ''RECORD_COUNT'', ''count''] rows"

definition loadFilteredProjectCountByYear_query :: "jsval \<Rightarrow> db \<Rightarrow> row option" where
  "loadFilteredProjectCountByYear_query districtNumber d =
     (case formattedDistrict districtNumber of
        None \<Rightarrow> None
      | Some fd \<Rightarrow>
          (case ProjectYears_ByDistrict d of
             Some view \<Rightarrow>
               Some (districtYearData (orderBy ''RSY_YEAR'' (filter (\<lambda>r. sqlEq (column r ''DISTRICT'') fd) view)))
           | None \<Rightarrow>
               map_option (\<lambda>base. districtYearData (fallbackYearRows ''DISTRICT'' fd base))
                 (Basic_Project_Info d)))"

definition loadFilteredProjectCountByYear :: "jsval \<Rightarrow> state \<Rightarrow> state" where
  "loadFilteredProjectCountByYear districtNumber s =
     (case database s of
        None \<Rightarrow> s
      | Some d \<Rightarrow>
          (case loadFilteredProjectCountByYear_query districtNumber d of
             None \<Rightarrow> s
           | Some yearData \<Rightarrow> createProjectYearsChart yearData s))"

definition loadFilteredProjectCountByYearByCounty_query :: "jsval \<Rightarrow> db \<Rightarrow> row option" where
  "loadFilteredProjectCountByYearByCounty_query countyName d =
     (case ProjectYears_ByCounty d of
        Some view \<Rightarrow>
          Some (countyYearData (orderBy ''RSY_YEAR'' (filter (\<lambda>r. sqlEq (column r ''COUNTY'') countyName) view)))
      | None \<Rightarrow>
          map_option (\<lambda>base. countyYearData (fallbackYearRows ''COUNTY'' countyName base))
            (Basic_Project_Info d))"

definition loadFilteredProjectCountByYearByCounty :: "jsval \<Rightarrow> state \<Rightarrow> state" where
  "loadFilteredProjectCountByYearByCounty countyName s =
     (case database s of
        None \<Rightarrow> s
      | Some d \<Rightarrow>
          (case loadFilteredProjectCountByYearByCounty_query countyName d of
             None \<Rightarrow> s
           | Some yearData \<Rightarrow> createProjectYearsChart yearData s))"

text \<open>
  \<open>loadFilteredProjectCountByYearByProjectType\<close>: one aggregation over the join with
  the crosswalk, with no year bound; the chart is always redrawn.
\<close>

definition loadFilteredProjectCountByYearByProjectType_query :: "jsval \<Rightarrow> db \<Rightarrow> row option" where
  "loadFilteredProjectCountByYearByProjectType_query projectType d =
     (case (Basic_Project_Info d, crosswalk d) of
        (Some base, Some cw) \<Rightarrow>
          Some (toYearData [''YEAR'', ''year''] [''record_count'', ''RECORD_COUNT'', ''count'']
                  (yearRows (map (\<lambda>(b, c). column b ''RSY_YEAR'') (joinCrosswalk base cw projectType))))
      | _ \<Rightarrow> None)"

definition loadFilteredProjectCountByYearByProjectType :: "jsval \<Rightarrow> state \<Rightarrow> state" where
  "loadFilteredProjectCountByYearByProjectType projectType s =
     (case database s of
        None \<Rightarrow> s
      | Some d \<Rightarrow>
          (case loadFilteredProjectCountByYearByProjectType_query projectType d of
             None \<Rightarrow> s
           | Some yearData \<Rightarrow> createProjectYearsChart yearData s))"

section \<open>Rows for the table\<close>

text \<open>
  The four row queries end in \<^verbatim>\<open>LIMIT 1000\<close>.

  \<open>loadBasicProjectInfo\<close>: \<^verbatim>\<open>SELECT * FROM Basic_Project_Info LIMIT 1000\<close>. With no
  row nothing changes; otherwise the two charts are reloaded and the table gets the
  columns of the first row and the rows. A missing table is created and the function is
  run again from a timer, which ends in the same state.
\<close>

definition loadBasicProjectInfo_query :: "db \<Rightarrow> row list option" where
  "loadBasicProjectInfo_query d = map_option (take 1000) (Basic_Project_Info d)"

definition loadBasicProjectInfo :: "state \<Rightarrow> state" where
  "loadBasicProjectInfo s =
     (case database s of
        None \<Rightarrow> s
      | Some d \<Rightarrow>
          (case loadBasicProjectInfo_query d of
             None \<Rightarrow> s
           | Some [] \<Rightarrow> s
           | Some (r # rs) \<Rightarrow>
               (loadProjectsAwardedData (loadProjectCountByYear s))
                 \<lparr>highwayProjectsTable := Some \<lparr>columns = createTableColumns r, tableData = r # rs\<rparr>\<rparr>))"

definition loadFilteredBasicProjectInfo_query :: "jsval \<Rightarrow> db \<Rightarrow> row list option" where
  "loadFilteredBasicProjectInfo_query districtNumber d =
     (case formattedDistrict districtNumber of
        None \<Rightarrow> None
      | Some fd \<Rightarrow>
          map_option (\<lambda>base. take 1000 (filter (\<lambda>r. sqlEq (column r ''DISTRICT'') fd) base))
            (Basic_Project_Info d))"

definition loadFilteredBasicProjectInfo :: "jsval \<Rightarrow> state \<Rightarrow> state" where
  "loadFilteredBasicProjectInfo districtNumber s =
     (case database s of
        None \<Rightarrow> s
      | Some d \<Rightarrow>
          (case loadFilteredBasicProjectInfo_query districtNumber d of
             None \<Rightarrow> s
           | Some rows \<Rightarrow> setFilteredData rows s))"

definition loadFilteredBasicProjectInfoByCounty_query :: "jsval \<Rightarrow> db \<Rightarrow> row list option" where
  "loadFilteredBasicProjectInfoByCounty_query countyName d =
     map_option (\<lambda>base. take 1000 (filter (\<lambda>r. sqlEq (column r ''COUNTY'') countyName) base))
       (Basic_Project_Info d)"

definition loadFilteredBasicProjectInfoByCounty :: "jsval \<Rightarrow> state \<Rightarrow> state" where
  "loadFilteredBasicProjectInfoByCounty countyName s =
     (case database s of
        None \<Rightarrow> s
      | Some d \<Rightarrow>
          (case loadFilteredBasicProjectInfoByCounty_query countyName d of
             None \<Rightarrow> s
           | Some rows \<Rightarrow> setFilteredData rows s))"

definition loadFilteredBasicProjectInfoByProjectType_query :: "jsval \<Rightarrow> db \<Rightarrow> row list option" where
  "loadFilteredBasicProjectInfoByProjectType_query projectType d =
     (case (Basic_Project_Info d, crosswalk d) of
        (Some base, Some cw) \<Rightarrow> Some (take 1000 (map fst (joinCrosswalk base cw projectType)))
      | _ \<Rightarrow> None)"

definition loadFilteredBasicProjectInfoByProjectType :: "jsval \<Rightarrow> state \<Rightarrow> state" where
  "loadFilteredBasicProjectInfoByProjectType projectType s =
     (case database s of
        None \<Rightarrow> s
      | Some d \<Rightarrow>
          (case loadFilteredBasicProjectInfoByProjectType_query projectType d of
             None \<Rightarrow> s
           | Some rows \<Rightarrow> setFilteredData rows s))"

section \<open>Titles\<close>

text \<open>
  \<open>getProjectTypeDisplayName\<close>: \<^verbatim>\<open>SELECT DISTINCT dropdown_display_name FROM crosswalk
  WHERE dropdown_category = ? LIMIT 1\<close>; the category itself when there is no database,
  no category, no entry, no display name, or an exception.
\<close>

definition getProjectTypeDisplayName :: "db option \<Rightarrow> jsval \<Rightarrow> jsval" where
  "getProjectTypeDisplayName dbo category =
     (case dbo of
        None \<Rightarrow> category
      | Some d \<Rightarrow>
          if \<not> truthy category then category
          else (case crosswalk d of
                  None \<Rightarrow> category
                | Some cw \<Rightarrow>
                    (case filter (\<lambda>c. sqlEq (column c ''dropdown_category'') category) cw of
                       [] \<Rightarrow> category
                     | c # _ \<Rightarrow> jsOr (column c ''dropdown_display_name'') category)))"

text \<open>\<open>updatePanelTitles\<close>; the two title elements are taken to exist.\<close>

definition updatePanelTitles :: "state \<Rightarrow> state" where
  "updatePanelTitles s =
     (let districtSuffix =
            (if truthy (currentDistrictFilter s)
             then '' in District '' @ jsString (currentDistrictFilter s) else []);
          countySuffix =
            (if truthy (currentCountyFilter s)
             then '' in '' @ jsString (currentCountyFilter s) @ '' County'' else []);
          projectsTitleSuffix = districtSuffix @ countySuffix;
          tableTitleSuffix = districtSuffix @ countySuffix @
            (if truthy (currentProjectTypeFilter s)
             then '' ('' @ jsString (getProjectTypeDisplayName (database s) (currentProjectTypeFilter s)) @ '')''
             else [])
      in s\<lparr>projectsPanelTitle :=
             (if projectsTitleSuffix \<noteq> [] then ''Projects'' @ projectsTitleSuffix else ''Projects''),
           tableDataTitle :=
             (if tableTitleSuffix \<noteq> [] then ''Highway Projects Data'' @ tableTitleSuffix
              else ''Highway Projects Data'')\<rparr>)"

section \<open>Spatial lookup\<close>

text \<open>
  \<open>countyLayers\<close> and \<open>districtLayers\<close> are objects used as dictionaries: a list of keys
  with their feature groups, in the order \<^verbatim>\<open>Object.keys\<close> enumerates them. The zoom
  functions are given by the group whose bounds they pass to \<^verbatim>\<open>fitBounds\<close>, \<open>None\<close> when
  they make no call. Properties inherited from \<^verbatim>\<open>Object.prototype\<close> are not part of
  the dictionary.
\<close>

definition orElse :: "'a option \<Rightarrow> 'a option \<Rightarrow> 'a option" where
  "orElse a b = (case a of Some x \<Rightarrow> Some x | None \<Rightarrow> b)"





text \<open>
  \<open>zoomToDistrict\<close> looks the district up under \<^verbatim>\<open>parseInt(districtNumber)\<close> and under
  \<^verbatim>\<open>districtNumber.toString()\<close>; the outer \<open>None\<close> is the TypeError of \<^verbatim>\<open>toString\<close>
  on \<^verbatim>\<open>null\<close> or \<^verbatim>\<open>undefined\<close>.
\<close>

definition zoomToDistrict :: "(string \<times> featureGroup) list \<Rightarrow> jsval \<Rightarrow> featureGroup option option" where
  "zoomToDistrict layers districtNumber =
     (let numKey = (case parseInt districtNumber of None \<Rightarrow> ''NaN'' | Some n \<Rightarrow> showInt n)
      in case toString districtNumber of
           None \<Rightarrow> None
         | Some strKey \<Rightarrow> Some (orElse (map_of layers numKey) (map_of layers strKey)))"

section \<open>Filter operations and the dispatcher\<close>

definition updateChartsAndTable :: "state \<Rightarrow> state" where
  "updateChartsAndTable s =
     (if truthy (currentProjectTypeFilter s) then
        loadFilteredBasicProjectInfoByProjectType (currentProjectTypeFilter s)
          (loadFilteredProjectCountByYearByProjectType (currentProjectTypeFilter s)
            (loadFilteredProjectsAwardedDataByProjectType (currentProjectTypeFilter s) s))
      else if truthy (currentDistrictFilter s) then
        loadFilteredBasicProjectInfo (currentDistrictFilter s)
          (loadFilteredProjectCountByYear (currentDistrictFilter s)
            (loadFilteredProjectsAwardedData (currentDistrictFilter s) s))
      else if truthy (currentCountyFilter s) then
        loadFilteredBasicProjectInfoByCounty (currentCountyFilter s)
          (loadFilteredProjectCountByYearByCounty (currentCountyFilter s)
            (loadFilteredProjectsAwardedDataByCounty (currentCountyFilter s) s))
      else
        loadBasicProjectInfo (loadProjectCountByYear (loadProjectsAwardedData s)))"

text \<open>
  \<open>applyCountyFilter\<close> and \<open>applyProjectTypeFilter\<close> receive the string stored in the
  \<^verbatim>\<open>data-\<close> attribute of the option that was clicked; \<open>applyDistrictFilter\<close> is
  documented for a string or a number. Each assigns its own filter variable only. The
  calls that move or restyle the map (\<open>zoomToCounty\<close>, \<open>zoomToDistrict\<close>, the opacity
  of the project lines) leave the state alone; \<open>zoomToDistrict\<close> can throw, which ends
  \<open>applyDistrictFilter\<close> before its loaders run.
\<close>

definition applyCountyFilter :: "string \<Rightarrow> state \<Rightarrow> state" where
  "applyCountyFilter countyName s =
     loadFilteredBasicProjectInfoByCounty (JStr countyName)
       (loadFilteredProjectCountByYearByCounty (JStr countyName)
         (loadFilteredProjectsAwardedDataByCounty (JStr countyName)
           (updatePanelTitles (s\<lparr>currentCountyFilter := JStr countyName\<rparr>))))"

definition applyDistrictFilter :: "jsval \<Rightarrow> state \<Rightarrow> state" where
  "applyDistrictFilter districtNumber s =
     (let s1 = updatePanelTitles (s\<lparr>currentDistrictFilter := districtNumber\<rparr>)
      in case zoomToDistrict (districtLayers s1) districtNumber of
           None \<Rightarrow> s1
         | Some _ \<Rightarrow>
             loadFilteredBasicProjectInfo districtNumber
               (loadFilteredProjectCountByYear districtNumber
                 (loadFilteredProjectsAwardedData districtNumber s1)))"

definition applyProjectTypeFilter :: "string \<Rightarrow> state \<Rightarrow> state" where
  "applyProjectTypeFilter projectType s =
     updateChartsAndTable (updatePanelTitles (s\<lparr>currentProjectTypeFilter := JStr projectType\<rparr>))"

definition clearCountyFilter :: "state \<Rightarrow> state" where
  "clearCountyFilter s =
     (let s1 = updatePanelTitles (s\<lparr>currentCountyFilter := JNull\<rparr>)
      in if truthy (currentDistrictFilter s1) then
           loadFilteredBasicProjectInfo (currentDistrictFilter s1)
             (loadFilteredProjectCountByYear (currentDistrictFilter s1)
               (loadFilteredProjectsAwardedData (currentDistrictFilter s1) s1))
         else loadBasicProjectInfo (loadProjectCountByYear (loadProjectsAwardedData s1)))"

definition clearDistrictFilter :: "state \<Rightarrow> state" where
  "clearDistrictFilter s =
     (let s1 = updatePanelTitles (s\<lparr>currentDistrictFilter := JNull\<rparr>)
      in if truthy (currentCountyFilter s1) then
           loadFilteredBasicProjectInfoByCounty (currentCountyFilter s1)
             (loadFilteredProjectCountByYearByCounty (currentCountyFilter s1)
               (loadFilteredProjectsAwardedDataByCounty (currentCountyFilter s1) s1))
         else loadBasicProjectInfo (loadProjectCountByYear (loadProjectsAwardedData s1)))"

definition clearProjectTypeFilter :: "state \<Rightarrow> state" where
  "clearProjectTypeFilter s =
     updateChartsAndTable (updatePanelTitles (s\<lparr>currentProjectTypeFilter := JNull\<rparr>))"

definition clearAllFilters :: "state \<Rightarrow> state" where
  "clearAllFilters s =
     loadBasicProjectInfo (loadProjectCountByYear (loadProjectsAwardedData
       (updatePanelTitles
          (s\<lparr>currentDistrictFilter := JNull, currentCountyFilter := JNull,
             currentProjectTypeFilter := JNull\<rparr>))))"

text \<open>
  The district menu of \<open>loadDistrictOptions\<close>, when it is built from the table
  \<^verbatim>\<open>KYTC_Districts\<close>: \<open>rows\<close> are the row objects of the query on the column that
  was found, read as \<^verbatim>\<open>row.Name || row.DISTRICT || row.district\<close>. A value is kept
  when its first run of digits is a number from 1 to 12; the menu has each number once,
  in ascending order. (When that query throws, the menu is built from the \<^verbatim>\<open>DISTRICT\<close>
  values of \<^verbatim>\<open>Basic_Project_Info\<close> instead, without this test.)
\<close>

definition districtOfValue :: "jsval \<Rightarrow> int option" where
  "districtOfValue districtValue =
     (if \<not> truthy districtValue then None
      else case matchDigits (jsString districtValue) of
             None \<Rightarrow> None
           | Some m \<Rightarrow>
               (case parseInt (JStr m) of
                  None \<Rightarrow> None
                | Some districtNum \<Rightarrow>
                    if 1 \<le> districtNum \<and> districtNum \<le> 12 then Some districtNum else None))"

definition loadDistrictOptions :: "row list \<Rightarrow> int list" where
  "loadDistrictOptions rows =
     sort (remdups (List.map_filter
       (\<lambda>row. districtOfValue (probe row [''Name'', ''DISTRICT'', ''district''])) rows))"

section \<open>Auxiliary definitions\<close>

text \<open>
  The aggregate results of a refresh are the three things the loaders write: the counts
  of the pie chart, the bar chart and the table.
\<close>

definition aggregateResults :: "state \<Rightarrow> counts \<times> (string list \<times> jsval list) option \<times> tabulator option" where
  "aggregateResults s = (projectCounts s, projectYearsChart s, highwayProjectsTable s)"

definition tableRows :: "state \<Rightarrow> row list" where
  "tableRows s = (case highwayProjectsTable s of None \<Rightarrow> [] | Some t \<Rightarrow> tableData t)"

text \<open>
  What a loader leaves in a field: the old value without a database or without a
  result, the result otherwise.
\<close>

definition pick :: "db option \<Rightarrow> (db \<Rightarrow> 'a option) \<Rightarrow> 'a \<Rightarrow> 'a" where
  "pick dbo q old = (case dbo of None \<Rightarrow> old | Some d \<Rightarrow> (case q d of None \<Rightarrow> old | Some x \<Rightarrow> x))"

definition pickTable :: "db option \<Rightarrow> (db \<Rightarrow> row list option) \<Rightarrow> tabulator option \<Rightarrow> tabulator option" where
  "pickTable dbo q old =
     (case dbo of
        None \<Rightarrow> old
      | Some d \<Rightarrow>
          (case q d of
             None \<Rightarrow> old
           | Some rows \<Rightarrow> Some (setData rows (case old of None \<Rightarrow> initializeProjectsTable | Some t \<Rightarrow> t))))"

definition firstRows :: "db option \<Rightarrow> row list" where
  "firstRows dbo =
     (case dbo of
        None \<Rightarrow> []
      | Some d \<Rightarrow> (case loadBasicProjectInfo_query d of None \<Rightarrow> [] | Some rows \<Rightarrow> rows))"

text \<open>
  A snapshot with three projects, two in Fayette county (one awarded, one current) and
  one in Jefferson county (awarded), and one crosswalk entry. \<open>fixtureDb\<close> has no views;
  \<open>fixtureViews\<close> adds the pre-aggregated views.
\<close>

definition fixtureProjects :: "row list" where
  "fixtureProjects =
     [[(''DISTRICT'', JStr ''District 07''), (''COUNTY'', JStr ''Fayette''), (''RSY_YEAR'', JNum 2024),
       (''TYPE_WORK'', JStr ''BRIDGE REPLACEMENT''), (''AWARDED'', JStr ''Yes'')],
      [(''DISTRICT'', JStr ''District 07''), (''COUNTY'', JStr ''Fayette''), (''RSY_YEAR'', JNum 2025),
       (''TYPE_WORK'', JStr ''BRIDGE REPLACEMENT''), (''AWARDED'', JNull)],
      [(''DISTRICT'', JStr ''District 05''), (''COUNTY'', JStr ''Jefferson''), (''RSY_YEAR'', JNum 2023),
       (''TYPE_WORK'', JStr ''RESURFACING''), (''AWARDED'', JStr ''Yes'')]]"

definition fixtureDb :: db where
  "fixtureDb =
     \<lparr>Basic_Project_Info = Some fixtureProjects,
      crosswalk = Some
        [[(''raw_project_type'', JStr ''BRIDGE REPLACEMENT''), (''dropdown_category'', JStr ''bridge''),
          (''dropdown_display_name'', JStr ''Bridge Construction'')]],
      ProjectsAwarded = None, ProjectsAwarded_ByDistrict = None, ProjectsAwarded_ByCounty = None,
      ProjectCount_Year = None, ProjectYears_ByDistrict = None, ProjectYears_ByCounty = None\<rparr>"


definition fixtureState :: state where
  "fixtureState =
     \<lparr>currentDistrictFilter = JNull, currentCountyFilter = JNull, currentProjectTypeFilter = JNull,
      projectCounts = \<lparr>awarded = JNum 0, current = JNum 0\<rparr>, projectYearsChart = None,
      highwayProjectsTable = Some initializeProjectsTable, database = Some fixtureDb,
      projectsPanelTitle = ''Projects'', tableDataTitle = ''Highway Projects Data'',
      districtLayers = [(''7'', [0])], countyLayers = [(''Fayette'', [0, 1]), (''Jefferson'', [2])]\<rparr>"

text \<open>
  The counts by award status in the words of the specification: among the matching
  project records, the awarded count is the number of records whose awarded flag is set
  and the current count the number of records whose flag is not set. The flag is the
  \<^verbatim>\<open>AWARDED\<close> column, set when it is neither NULL nor the empty text.
\<close>

definition awardStatusCounts_spec :: "row list \<Rightarrow> counts" where
  "awardStatusCounts_spec matching =
     \<lparr>awarded = JNum (int (length (filter (\<lambda>r. awardedSet (column r ''AWARDED'')) matching))),
      current = JNum (int (length (filter (\<lambda>r. \<not> awardedSet (column r ''AWARDED'')) matching)))\<rparr>"




text \<open>Rows of \<^verbatim>\<open>KYTC_Districts\<close>, one of them with a number that is no district.\<close>

definition fixtureDistricts :: "row list" where
  "fixtureDistricts =
     [[(''Name'', JStr ''District 7'')], [(''Name'', JStr ''District 13'')], [(''Name'', JNum 0)]]"

text \<open>A snapshot with 1200 projects in Fayette county.\<close>

definition manyProjects :: db where
  "manyProjects = fixtureDb\<lparr>Basic_Project_Info := Some (replicate 1200 (hd fixtureProjects))\<rparr>"

section \<open>What the loaders write\<close>

lemma pick_idem: "pick dbo q (pick dbo q old) = pick dbo q old"
  by (simp add: pick_def split: option.splits)

lemma setData_idem: "setData rows (setData rows t) = setData rows t"
  by (cases rows) (simp_all add: setData_def)

lemma pickTable_idem: "pickTable dbo q (pickTable dbo q old) = pickTable dbo q old"
  by (simp add: pickTable_def setData_idem split: option.splits)

lemma counts_runs:
  "loadProjectsAwardedData s =
     s\<lparr>projectCounts := pick (database s) loadProjectsAwardedData_query (projectCounts s)\<rparr>"
  "loadFilteredProjectsAwardedData p s =
     s\<lparr>projectCounts := pick (database s) (loadFilteredProjectsAwardedData_query p) (projectCounts s)\<rparr>"
  "loadFilteredProjectsAwardedDataByCounty p s =
     s\<lparr>projectCounts := pick (database s) (loadFilteredProjectsAwardedDataByCounty_query p) (projectCounts s)\<rparr>"
  "loadFilteredProjectsAwardedDataByProjectType p s =
     s\<lparr>projectCounts := pick (database s) (loadFilteredProjectsAwardedDataByProjectType_query p) (projectCounts s)\<rparr>"
  by (simp_all add: loadProjectsAwardedData_def loadFilteredProjectsAwardedData_def
      loadFilteredProjectsAwardedDataByCounty_def loadFilteredProjectsAwardedDataByProjectType_def
      updateProjectCounts_awarded_def updateProjectCounts_current_def pick_def split: option.splits)

lemma chart_runs:
  "loadProjectCountByYear s =
     s\<lparr>projectYearsChart :=
         pick (database s) (\<lambda>d. map_option yearsChart (loadProjectCountByYear_query d)) (projectYearsChart s)\<rparr>"
  "loadFilteredProjectCountByYear p s =
     s\<lparr>projectYearsChart :=
         pick (database s) (\<lambda>d. map_option yearsChart (loadFilteredProjectCountByYear_query p d)) (projectYearsChart s)\<rparr>"
  "loadFilteredProjectCountByYearByCounty p s =
     s\<lparr>projectYearsChart :=
         pick (database s) (\<lambda>d. map_option yearsChart (loadFilteredProjectCountByYearByCounty_query p d)) (projectYearsChart s)\<rparr>"
  "loadFilteredProjectCountByYearByProjectType p s =
     s\<lparr>projectYearsChart :=
         pick (database s) (\<lambda>d. map_option yearsChart (loadFilteredProjectCountByYearByProjectType_query p d)) (projectYearsChart s)\<rparr>"
  by (simp_all add: loadProjectCountByYear_def loadFilteredProjectCountByYear_def
      loadFilteredProjectCountByYearByCounty_def loadFilteredProjectCountByYearByProjectType_def
      createProjectYearsChart_def pick_def split: option.splits)

lemma table_runs:
  "loadFilteredBasicProjectInfo p s =
     s\<lparr>highwayProjectsTable :=
         pickTable (database s) (loadFilteredBasicProjectInfo_query p) (highwayProjectsTable s)\<rparr>"
  "loadFilteredBasicProjectInfoByCounty p s =
     s\<lparr>highwayProjectsTable :=
         pickTable (database s) (loadFilteredBasicProjectInfoByCounty_query p) (highwayProjectsTable s)\<rparr>"
  "loadFilteredBasicProjectInfoByProjectType p s =
     s\<lparr>highwayProjectsTable :=
         pickTable (database s) (loadFilteredBasicProjectInfoByProjectType_query p) (highwayProjectsTable s)\<rparr>"
  by (simp_all add: loadFilteredBasicProjectInfo_def loadFilteredBasicProjectInfoByCounty_def
      loadFilteredBasicProjectInfoByProjectType_def setFilteredData_def pickTable_def split: option.splits)

lemma basic_run:
  "loadBasicProjectInfo s =
     (case firstRows (database s) of
        [] \<Rightarrow> s
      | r # rs \<Rightarrow>
          s\<lparr>projectCounts := pick (database s) loadProjectsAwardedData_query (projectCounts s),
            projectYearsChart :=
              pick (database s) (\<lambda>d. map_option yearsChart (loadProjectCountByYear_query d)) (projectYearsChart s),
            highwayProjectsTable := Some \<lparr>columns = createTableColumns r, tableData = r # rs\<rparr>\<rparr>)"
  by (simp add: loadBasicProjectInfo_def firstRows_def counts_runs chart_runs
      split: option.splits list.splits)

lemmas runs = counts_runs chart_runs table_runs basic_run

lemma updatePanelTitles_fields:
  "currentDistrictFilter (updatePanelTitles s) = currentDistrictFilter s"
  "currentCountyFilter (updatePanelTitles s) = currentCountyFilter s"
  "currentProjectTypeFilter (updatePanelTitles s) = currentProjectTypeFilter s"
  "database (updatePanelTitles s) = database s"
  "districtLayers (updatePanelTitles s) = districtLayers s"
  by (simp_all add: updatePanelTitles_def Let_def)

lemma updateChartsAndTable_fields:
  "currentDistrictFilter (updateChartsAndTable s) = currentDistrictFilter s"
  "currentCountyFilter (updateChartsAndTable s) = currentCountyFilter s"
  "currentProjectTypeFilter (updateChartsAndTable s) = currentProjectTypeFilter s"
  "projectsPanelTitle (updateChartsAndTable s) = projectsPanelTitle s"
  "tableDataTitle (updateChartsAndTable s) = tableDataTitle s"
  by (simp_all add: updateChartsAndTable_def runs split: list.splits)

section \<open>Filter state\<close>

text \<open>
  Claim C1 says that each of the three selections replaces the whole filter state, so
  that selecting county Fayette and then district 7 leaves district 7 alone. In the
  source each \<open>apply\<close> function assigns its own variable and nothing else: after the two
  selections both the district and the county filter are set.
\<close>

theorem C1_county_survives_district:
  "currentDistrictFilter (applyDistrictFilter (JNum 7) (applyCountyFilter ''Fayette'' fixtureState)) = JNum 7
   \<and> currentCountyFilter (applyDistrictFilter (JNum 7) (applyCountyFilter ''Fayette'' fixtureState))
       = JStr ''Fayette''"
  by (simp add: applyCountyFilter_def applyDistrictFilter_def updatePanelTitles_fields runs Let_def
      split: option.splits)

text \<open>
  C1, as the code has it: selecting a county, a district or a project type sets that
  filter variable to the selected value and leaves the other two filter variables as
  they were.
\<close>

theorem C1_select_sets_own_filter:
  "currentCountyFilter (applyCountyFilter countyName s) = JStr countyName
   \<and> currentDistrictFilter (applyCountyFilter countyName s) = currentDistrictFilter s
   \<and> currentProjectTypeFilter (applyCountyFilter countyName s) = currentProjectTypeFilter s
   \<and> currentDistrictFilter (applyDistrictFilter districtNumber s) = districtNumber
   \<and> currentCountyFilter (applyDistrictFilter districtNumber s) = currentCountyFilter s
   \<and> currentProjectTypeFilter (applyDistrictFilter districtNumber s) = currentProjectTypeFilter s
   \<and> currentProjectTypeFilter (applyProjectTypeFilter projectType s) = JStr projectType
   \<and> currentDistrictFilter (applyProjectTypeFilter projectType s) = currentDistrictFilter s
   \<and> currentCountyFilter (applyProjectTypeFilter projectType s) = currentCountyFilter s"
  by (simp add: applyCountyFilter_def applyDistrictFilter_def applyProjectTypeFilter_def
      updatePanelTitles_fields updateChartsAndTable_fields runs Let_def split: option.splits)

theorem C1_select_sets_own_filter_witness:
  "currentCountyFilter (applyCountyFilter ''Fayette'' fixtureState) = JStr ''Fayette''
   \<and> currentDistrictFilter (applyCountyFilter ''Fayette'' fixtureState) = currentDistrictFilter fixtureState"
  using C1_select_sets_own_filter [of "''Fayette''" fixtureState] by blast

text \<open>
  Claim C3 says that a district number outside 1 to 12 is rejected and leaves the filter
  state unchanged. \<open>applyDistrictFilter\<close> has no check: district 13 becomes the filter.
\<close>

theorem C3_district_13_accepted:
  "currentDistrictFilter fixtureState = JNull
   \<and> currentDistrictFilter (applyDistrictFilter (JNum 13) fixtureState) = JNum 13"
  by (simp add: applyDistrictFilter_def updatePanelTitles_fields runs Let_def fixtureState_def
      split: option.splits)

lemma districtOfValue_range: "districtOfValue v = Some n \<Longrightarrow> 1 \<le> n \<and> n \<le> 12"
  by (auto simp: districtOfValue_def split: if_splits option.splits)

text \<open>
  C3, as the code has it: \<open>applyDistrictFilter\<close> accepts every value and makes it the
  district filter, whether or not it lies in 1 to 12. The range is applied where the
  district menu is built from the table \<^verbatim>\<open>KYTC_Districts\<close>: every option of that menu
  is a number from 1 to 12.
\<close>

theorem C3_district_accepted_menu_in_range:
  "currentDistrictFilter (applyDistrictFilter districtNumber s) = districtNumber
   \<and> (\<forall>n \<in> set (loadDistrictOptions rows). 1 \<le> n \<and> n \<le> 12)"
proof
  show "currentDistrictFilter (applyDistrictFilter districtNumber s) = districtNumber"
    by (simp add: applyDistrictFilter_def updatePanelTitles_fields runs Let_def split: option.splits)
  show "\<forall>n \<in> set (loadDistrictOptions rows). 1 \<le> n \<and> n \<le> 12"
    by (auto simp: loadDistrictOptions_def List.map_filter_def dest: districtOfValue_range)
qed

theorem C3_district_accepted_menu_in_range_witness:
  "7 \<in> set (loadDistrictOptions fixtureDistricts) \<and> (1::int) \<le> 7 \<and> (7::int) \<le> 12
   \<and> currentDistrictFilter (applyDistrictFilter (JNum 13) fixtureState) = JNum 13"
proof -
  have "loadDistrictOptions fixtureDistricts = [7]"
    by code_simp
  then have "7 \<in> set (loadDistrictOptions fixtureDistricts)"
    by simp
  with C3_district_accepted_menu_in_range [of "JNum 13" fixtureState fixtureDistricts]
  show ?thesis by blast
qed

text \<open>
  Claim C8: from every state, clearing all filters resets the three filter variables to
  \<^verbatim>\<open>null\<close>, and the two titles become exactly \<^verbatim>\<open>Projects\<close> and
  \<^verbatim>\<open>Highway Projects Data\<close>.
\<close>

theorem C8_clearAllFilters_resets:
  "currentDistrictFilter (clearAllFilters s) = JNull
   \<and> currentCountyFilter (clearAllFilters s) = JNull
   \<and> currentProjectTypeFilter (clearAllFilters s) = JNull
   \<and> projectsPanelTitle (clearAllFilters s) = ''Projects''
   \<and> tableDataTitle (clearAllFilters s) = ''Highway Projects Data''"
  by (simp add: clearAllFilters_def runs updatePanelTitles_def Let_def split: list.splits)

theorem C8_clearAllFilters_resets_witness:
  "currentCountyFilter (clearAllFilters (applyCountyFilter ''Fayette'' fixtureState)) = JNull
   \<and> projectsPanelTitle (clearAllFilters (applyCountyFilter ''Fayette'' fixtureState)) = ''Projects''
   \<and> tableDataTitle (clearAllFilters (applyCountyFilter ''Fayette'' fixtureState)) = ''Highway Projects Data''"
  using C8_clearAllFilters_resets [of "applyCountyFilter ''Fayette'' fixtureState"] by blast

section \<open>The dispatcher\<close>

text \<open>
  Claim C9: a refresh is idempotent. Running \<open>updateChartsAndTable\<close> a second time on
  the state the first run left gives that same state again, so the counts, the year
  chart and the table rows are identical both times; the database is not changed.
\<close>

theorem C9_refresh_idempotent:
  "updateChartsAndTable (updateChartsAndTable s) = updateChartsAndTable s
   \<and> aggregateResults (updateChartsAndTable (updateChartsAndTable s)) = aggregateResults (updateChartsAndTable s)
   \<and> database (updateChartsAndTable s) = database s"
  by (simp add: updateChartsAndTable_def runs pick_idem pickTable_idem split: list.splits)

theorem C9_refresh_idempotent_witness:
  "updateChartsAndTable (updateChartsAndTable (fixtureState\<lparr>currentCountyFilter := JStr ''Fayette''\<rparr>))
     = updateChartsAndTable (fixtureState\<lparr>currentCountyFilter := JStr ''Fayette''\<rparr>)"
  using C9_refresh_idempotent [of "fixtureState\<lparr>currentCountyFilter := JStr ''Fayette''\<rparr>"] by blast

text \<open>
  Claim C10: when several filter variables are set at once, the dispatcher follows a
  fixed precedence: the project type if it is set, else the district, else the county,
  else the unfiltered loaders. Only that one filter drives the refresh: the results do
  not depend on the filters of lower precedence. A filter variable is set when it is
  truthy, which is how the dispatcher tests it; for the values the menus assign
  (non-empty strings) this is the same as not being \<^verbatim>\<open>null\<close>.
\<close>

theorem C10_dispatcher_precedence:
  "(truthy (currentProjectTypeFilter s) \<longrightarrow>
      updateChartsAndTable s =
        loadFilteredBasicProjectInfoByProjectType (currentProjectTypeFilter s)
          (loadFilteredProjectCountByYearByProjectType (currentProjectTypeFilter s)
            (loadFilteredProjectsAwardedDataByProjectType (currentProjectTypeFilter s) s))
      \<and> aggregateResults (updateChartsAndTable (s\<lparr>currentDistrictFilter := d, currentCountyFilter := c\<rparr>))
          = aggregateResults (updateChartsAndTable s))
   \<and> (\<not> truthy (currentProjectTypeFilter s) \<and> truthy (currentDistrictFilter s) \<longrightarrow>
      updateChartsAndTable s =
        loadFilteredBasicProjectInfo (currentDistrictFilter s)
          (loadFilteredProjectCountByYear (currentDistrictFilter s)
            (loadFilteredProjectsAwardedData (currentDistrictFilter s) s))
      \<and> aggregateResults (updateChartsAndTable (s\<lparr>currentCountyFilter := c\<rparr>))
          = aggregateResults (updateChartsAndTable s))
   \<and> (\<not> truthy (currentProjectTypeFilter s) \<and> \<not> truthy (currentDistrictFilter s)
        \<and> truthy (currentCountyFilter s) \<longrightarrow>
      updateChartsAndTable s =
        loadFilteredBasicProjectInfoByCounty (currentCountyFilter s)
          (loadFilteredProjectCountByYearByCounty (currentCountyFilter s)
            (loadFilteredProjectsAwardedDataByCounty (currentCountyFilter s) s)))
   \<and> (\<not> truthy (currentProjectTypeFilter s) \<and> \<not> truthy (currentDistrictFilter s)
        \<and> \<not> truthy (currentCountyFilter s) \<longrightarrow>
      updateChartsAndTable s = loadBasicProjectInfo (loadProjectCountByYear (loadProjectsAwardedData s)))"
  by (simp add: updateChartsAndTable_def aggregateResults_def runs)

theorem C10_dispatcher_precedence_witness:
  "truthy (currentProjectTypeFilter (fixtureState\<lparr>currentDistrictFilter := JNum 7, currentCountyFilter := JStr ''Jefferson'',
          currentProjectTypeFilter := JStr ''bridge''\<rparr>))
   \<and> aggregateResults (updateChartsAndTable
        (fixtureState\<lparr>currentDistrictFilter := JNum 7, currentCountyFilter := JStr ''Jefferson'',
          currentProjectTypeFilter := JStr ''bridge''\<rparr>))
     = aggregateResults (updateChartsAndTable (fixtureState\<lparr>currentProjectTypeFilter := JStr ''bridge''\<rparr>))
   \<and> truthy (currentDistrictFilter (fixtureState\<lparr>currentDistrictFilter := JNum 7, currentCountyFilter := JStr ''Jefferson''\<rparr>))
   \<and> aggregateResults (updateChartsAndTable
        (fixtureState\<lparr>currentDistrictFilter := JNum 7, currentCountyFilter := JStr ''Jefferson''\<rparr>))
     = aggregateResults (updateChartsAndTable (fixtureState\<lparr>currentDistrictFilter := JNum 7\<rparr>))"
proof -
  let ?p = "fixtureState\<lparr>currentProjectTypeFilter := JStr ''bridge''\<rparr>"
  let ?d = "fixtureState\<lparr>currentDistrictFilter := JNum 7\<rparr>"
  have p: "truthy (currentProjectTypeFilter ?p)" by simp
  have d: "\<not> truthy (currentProjectTypeFilter ?d) \<and> truthy (currentDistrictFilter ?d)"
    by (simp add: fixtureState_def)
  have 1: "aggregateResults (updateChartsAndTable (?p\<lparr>currentDistrictFilter := JNum 7, currentCountyFilter := JStr ''Jefferson''\<rparr>))
          = aggregateResults (updateChartsAndTable ?p)"
    using conjunct1 [OF C10_dispatcher_precedence [where s = ?p and d = "JNum 7" and c = "JStr ''Jefferson''"], THEN mp, OF p]
    by (rule conjunct2)
  have 2: "aggregateResults (updateChartsAndTable (?d\<lparr>currentCountyFilter := JStr ''Jefferson''\<rparr>))
          = aggregateResults (updateChartsAndTable ?d)"
    using conjunct1 [OF conjunct2 [OF C10_dispatcher_precedence [where s = ?d and d = JNull and c = "JStr ''Jefferson''"]], THEN mp, OF d]
    by (rule conjunct2)
  from 1 2 show ?thesis by (simp add: fixtureState_def)
qed

section \<open>Spatial key lookup\<close>











section \<open>Rows of the table\<close>

lemma setData_rows: "tableData (setData rows t) = rows"
  by (cases rows) (simp_all add: setData_def)

text \<open>
  Claim C7: the rows returned for the table are at most 1000, for the unfiltered query
  and for the queries by district, by county and by project type alike, and these rows
  are what the table holds after the loader has run.
\<close>

theorem C7_rows_capped:
  "(loadBasicProjectInfo_query d = Some rows \<longrightarrow> length rows \<le> 1000)
   \<and> (loadFilteredBasicProjectInfo_query p d = Some rows \<longrightarrow> length rows \<le> 1000)
   \<and> (loadFilteredBasicProjectInfoByCounty_query p d = Some rows \<longrightarrow> length rows \<le> 1000)
   \<and> (loadFilteredBasicProjectInfoByProjectType_query p d = Some rows \<longrightarrow> length rows \<le> 1000)
   \<and> (database s = Some d \<and> loadBasicProjectInfo_query d = Some rows \<and> rows \<noteq> []
        \<longrightarrow> tableRows (loadBasicProjectInfo s) = rows)
   \<and> (database s = Some d \<and> loadFilteredBasicProjectInfo_query p d = Some rows
        \<longrightarrow> tableRows (loadFilteredBasicProjectInfo p s) = rows)
   \<and> (database s = Some d \<and> loadFilteredBasicProjectInfoByCounty_query p d = Some rows
        \<longrightarrow> tableRows (loadFilteredBasicProjectInfoByCounty p s) = rows)
   \<and> (database s = Some d \<and> loadFilteredBasicProjectInfoByProjectType_query p d = Some rows
        \<longrightarrow> tableRows (loadFilteredBasicProjectInfoByProjectType p s) = rows)"
proof (intro conjI impI)
  show "loadBasicProjectInfo_query d = Some rows \<Longrightarrow> length rows \<le> 1000"
    by (auto simp: loadBasicProjectInfo_query_def)
  show "loadFilteredBasicProjectInfo_query p d = Some rows \<Longrightarrow> length rows \<le> 1000"
    by (auto simp: loadFilteredBasicProjectInfo_query_def split: option.splits)
  show "loadFilteredBasicProjectInfoByCounty_query p d = Some rows \<Longrightarrow> length rows \<le> 1000"
    by (auto simp: loadFilteredBasicProjectInfoByCounty_query_def)
  show "loadFilteredBasicProjectInfoByProjectType_query p d = Some rows \<Longrightarrow> length rows \<le> 1000"
    by (auto simp: loadFilteredBasicProjectInfoByProjectType_query_def split: option.splits)
  show "database s = Some d \<and> loadBasicProjectInfo_query d = Some rows \<and> rows \<noteq> []
        \<Longrightarrow> tableRows (loadBasicProjectInfo s) = rows"
    by (cases rows) (auto simp: basic_run firstRows_def tableRows_def)
  show "database s = Some d \<and> loadFilteredBasicProjectInfo_query p d = Some rows
        \<Longrightarrow> tableRows (loadFilteredBasicProjectInfo p s) = rows"
    by (simp add: table_runs pickTable_def tableRows_def setData_rows)
  show "database s = Some d \<and> loadFilteredBasicProjectInfoByCounty_query p d = Some rows
        \<Longrightarrow> tableRows (loadFilteredBasicProjectInfoByCounty p s) = rows"
    by (simp add: table_runs pickTable_def tableRows_def setData_rows)
  show "database s = Some d \<and> loadFilteredBasicProjectInfoByProjectType_query p d = Some rows
        \<Longrightarrow> tableRows (loadFilteredBasicProjectInfoByProjectType p s) = rows"
    by (simp add: table_runs pickTable_def tableRows_def setData_rows)
qed

theorem C7_rows_capped_witness:
  "loadFilteredBasicProjectInfoByCounty_query (JStr ''Fayette'') manyProjects
     = Some (replicate 1000 (hd fixtureProjects))
   \<and> length (replicate 1000 (hd fixtureProjects)) \<le> 1000"
proof -
  have q: "loadFilteredBasicProjectInfoByCounty_query (JStr ''Fayette'') manyProjects
     = Some (replicate 1000 (hd fixtureProjects))"
    by (simp add: loadFilteredBasicProjectInfoByCounty_query_def manyProjects_def fixtureDb_def
        fixtureProjects_def column_def)
  with C7_rows_capped [where d = manyProjects and p = "JStr ''Fayette''"
      and rows = "replicate 1000 (hd fixtureProjects)"]
  show ?thesis by blast
qed

section \<open>Awarded and current counts of the queries\<close>










text \<open>
  Claim C2 says that the counts for a project-type filter are the counts by award status
  of the matching records. The query labels a row \<^verbatim>\<open>Awarded\<close> when its category is the
  selected one, which the WHERE clause has already required, so every matching row is
  counted as awarded and none as current. Of the two bridge projects of the fixture one
  is awarded and one is not; the query reports 2 and 0.
\<close>

theorem C2_project_type_all_awarded:
  "loadFilteredBasicProjectInfoByProjectType_query (JStr ''bridge'') fixtureDb = Some (take 2 fixtureProjects)
   \<and> loadFilteredProjectsAwardedDataByProjectType_query (JStr ''bridge'') fixtureDb
       = Some \<lparr>awarded = JNum 2, current = JNum 0\<rparr>
   \<and> awardStatusCounts_spec (take 2 fixtureProjects) = \<lparr>awarded = JNum 1, current = JNum 1\<rparr>"
  apply (intro conjI)
  subgoal by code_simp
  subgoal by code_simp
  subgoal by code_simp
  done




section \<open>Counts by year of the queries\<close>







end
